theory Spec2Isabelle
  imports Complex_Main
begin

section \<open>TaxPilot: the conversation flow manager\<close>

text \<open>
  The flow manager keeps one \<open>ConversationFlowState\<close> per client in the module-level map
  \<open>activeFlows\<close> and reads client profiles from the in-memory database. Both maps are
  passed explicitly here; every function that mutates a stored state object in place
  returns the updated \<open>activeFlows\<close> map. \<open>new Date()\<close> is the parameter \<open>now\<close>: one clock
  reading per call.
\<close>

subsection \<open>Data\<close>

datatype ConversationStage =
    "welcome"
  | intake_questions
  | summary_review
  | summary_confirmation
  | document_checklist
  | availability_inquiry
  | taxpro_routing
  | appointment_scheduling
  | reminders_setup
  | complete

text \<open>Values of type \<open>unknown\<close> stored under \<open>stageData\<close>.\<close>

datatype jsval =
    JNull
  | JBool bool
  | JNum int
  | JStr string
  | JArr "jsval list"
  | JObj "(string \<times> jsval) list"

type_synonym jsobj = "string \<rightharpoonup> jsval"

text \<open>JavaScript truthiness, as used by \<open>x ? a : b\<close>.\<close>

fun truthy :: "jsval \<Rightarrow> bool" where
  "truthy JNull = False"
| "truthy (JBool b) = b"
| "truthy (JNum n) = (n \<noteq> 0)"
| "truthy (JStr s) = (s \<noteq> [])"
| "truthy (JArr xs) = True"
| "truthy (JObj kvs) = True"

text \<open>Truthiness of an optional string field (\<open>undefined\<close> and \<open>''\<close> are falsy).\<close>

fun truthy_str :: "string option \<Rightarrow> bool" where
  "truthy_str None = False"
| "truthy_str (Some s) = (s \<noteq> [])"

datatype AppointmentType = virtual | in_person

record SchedulingPreferences =
  preferredDates :: "string list"
  preferredTimes :: "string list"
  appointmentType :: AppointmentType

record ConversationFlowState =
  clientId :: string
  sessionId :: string
  currentStage :: ConversationStage
  completedStages :: "ConversationStage list"
  stageData :: "ConversationStage \<rightharpoonup> jsobj"
  startedAt :: nat
  lastActivityAt :: nat
  summaryConfirmed :: bool
  selectedTaxProId :: "string option"
  preferredSchedule :: "SchedulingPreferences option"

text \<open>
  The client profile. The flow manager reads \<open>intakeCompleted\<close>, \<open>documentsCollected\<close>,
  \<open>documentsPending\<close>, \<open>assignedTaxPro\<close> and \<open>appointmentId\<close>; the routing engine reads the
  tags.
\<close>

record ClientProfile =
  filingStatus :: string
  dependents :: nat
  incomeTypes :: "string list"
  deductions :: "string list"
  specialSituations :: "string list"
  intakeCompleted :: bool
  documentsCollected :: "string list"
  documentsPending :: "string list"
  assignedTaxPro :: "string option"
  appointmentId :: "string option"

record Progress =
  current :: int
  total :: int
  percentage :: int

text \<open>
  \<open>FlowActionResult\<close>; the multi-line \<open>instructions\<close> prose of each stage is a constant of
  the stage and is left out.
\<close>

record FlowActionResult =
  fa_currentStage :: ConversationStage
  fa_nextAction :: string
  fa_canProceed :: bool
  fa_blockers :: "string list"
  fa_suggestedTools :: "string list"
  fa_progress :: Progress

type_synonym flows = "string \<rightharpoonup> ConversationFlowState"
type_synonym clients = "string \<rightharpoonup> ClientProfile"

subsection \<open>The stage sequence\<close>

definition FLOW_SEQUENCE :: "ConversationStage list" where
  "FLOW_SEQUENCE =
     [welcome, intake_questions, summary_review, summary_confirmation, document_checklist,
      availability_inquiry, taxpro_routing, appointment_scheduling, reminders_setup, complete]"

text \<open>\<open>Array.prototype.indexOf\<close>: the first position of the element, \<open>-1\<close> when absent.\<close>

fun indexOf :: "'a list \<Rightarrow> 'a \<Rightarrow> int" where
  "indexOf [] x = -1"
| "indexOf (y # ys) x =
     (if y = x then 0 else (let i = indexOf ys x in if i < 0 then -1 else i + 1))"

text \<open>\<open>Array.prototype.includes\<close> followed by \<open>push\<close>: the guarded append used throughout.\<close>

definition push_if_absent :: "'a \<Rightarrow> 'a list \<Rightarrow> 'a list" where
  "push_if_absent x xs = (if x \<in> set xs then xs else xs @ [x])"

subsection \<open>Stage configuration\<close>

text \<open>Reading a flag of a stage's data: \<open>state.stageData.<stage>?.<key>\<close>.\<close>

definition stage_flag :: "ConversationFlowState \<Rightarrow> ConversationStage \<Rightarrow> string \<Rightarrow> jsval option" where
  "stage_flag state stage key =
     (case stageData state stage of None \<Rightarrow> None | Some obj \<Rightarrow> obj key)"

definition flag_truthy :: "jsval option \<Rightarrow> bool" where
  "flag_truthy v = (case v of None \<Rightarrow> False | Some x \<Rightarrow> truthy x)"

text \<open>
  \<open>STAGE_CONFIG[stage].completionCheck(state, client)\<close>, returning
  \<open>(canProceed, blockers)\<close>. \<open>canProceed\<close> compares with \<open>=== true\<close> while the blockers
  list is chosen by truthiness, as in the source.
\<close>

fun completionCheck ::
  "ConversationStage \<Rightarrow> ConversationFlowState \<Rightarrow> ClientProfile option \<Rightarrow> bool \<times> string list" where
  "completionCheck welcome state client =
     (let hasSession = (sessionId state \<noteq> [])
      in (hasSession, if hasSession then [] else [''Intake session must be started'']))"
| "completionCheck intake_questions state client =
     (let isComplete = (case client of None \<Rightarrow> False | Some c \<Rightarrow> intakeCompleted c)
      in (isComplete, if isComplete then [] else [''All intake questions must be completed'']))"
| "completionCheck summary_review state client =
     (let shown = stage_flag state summary_review ''shown''
      in (shown = Some (JBool True),
          if flag_truthy shown then [] else [''Summary must be displayed to user'']))"
| "completionCheck summary_confirmation state client =
     (summaryConfirmed state,
      if summaryConfirmed state then [] else [''User must confirm their summary information''])"
| "completionCheck document_checklist state client =
     (let generated = stage_flag state document_checklist ''generated''
      in (generated = Some (JBool True),
          if flag_truthy generated then []
          else [''Document checklist must be generated and shown'']))"
| "completionCheck availability_inquiry state client =
     (let hasPreferences = (preferredSchedule state \<noteq> None)
      in (hasPreferences,
          if hasPreferences then [] else [''Scheduling preferences must be collected'']))"
| "completionCheck taxpro_routing state client =
     (let hasTaxPro = (selectedTaxProId state \<noteq> None)
      in (hasTaxPro, if hasTaxPro then [] else [''Tax professional must be selected'']))"
| "completionCheck appointment_scheduling state client =
     (let hasAppointment = (case client of None \<Rightarrow> False | Some c \<Rightarrow> appointmentId c \<noteq> None)
      in (hasAppointment, if hasAppointment then [] else [''Appointment must be created'']))"
| "completionCheck reminders_setup state client =
     (let created = stage_flag state reminders_setup ''created''
      in (created = Some (JBool True),
          if flag_truthy created then [] else [''Reminders should be created'']))"
| "completionCheck complete state client = (True, [])"

fun nextAction :: "ConversationStage \<Rightarrow> string" where
  "nextAction welcome = ''Start intake session and greet the user''"
| "nextAction intake_questions = ''Continue asking intake questions''"
| "nextAction summary_review = ''Generate and present the summary to the user''"
| "nextAction summary_confirmation = ''Wait for user confirmation or process edit requests''"
| "nextAction document_checklist = ''Generate and present the document checklist''"
| "nextAction availability_inquiry = ''Ask about appointment availability and preferences''"
| "nextAction taxpro_routing = ''Route client to appropriate tax professional''"
| "nextAction appointment_scheduling = ''Book the appointment''"
| "nextAction reminders_setup = ''Set up reminders for documents and appointment''"
| "nextAction complete = ''Provide closing summary and offer additional help''"

fun suggestedTools :: "ConversationStage \<Rightarrow> string list" where
  "suggestedTools welcome = [''start_intake'']"
| "suggestedTools intake_questions = [''process_intake_response'', ''get_intake_progress'']"
| "suggestedTools summary_review = [''get_client_summary'']"
| "suggestedTools summary_confirmation = [''process_intake_response'', ''get_client_summary'']"
| "suggestedTools document_checklist =
     [''generate_document_checklist'', ''get_document_checklist'']"
| "suggestedTools availability_inquiry = [''get_appointment_estimate'']"
| "suggestedTools taxpro_routing =
     [''calculate_complexity'', ''route_to_tax_pro'', ''get_tax_pro_recommendations'',
      ''list_tax_professionals'']"
| "suggestedTools appointment_scheduling = [''create_appointment'']"
| "suggestedTools reminders_setup =
     [''create_document_reminders'', ''get_client_reminders'', ''get_pending_documents'']"
| "suggestedTools complete = [''get_client'', ''get_client_summary'']"

subsection \<open>Flow operations\<close>

definition initializeFlow ::
  "nat \<Rightarrow> string \<Rightarrow> string \<Rightarrow> flows \<Rightarrow> ConversationFlowState \<times> flows" where
  "initializeFlow now cid sid activeFlows =
     (let state = \<lparr>clientId = cid, sessionId = sid, currentStage = welcome,
                   completedStages = [], stageData = Map.empty, startedAt = now,
                   lastActivityAt = now, summaryConfirmed = False,
                   selectedTaxProId = None, preferredSchedule = None\<rparr>
      in (state, activeFlows(cid \<mapsto> state)))"

definition getFlowState :: "string \<Rightarrow> flows \<Rightarrow> ConversationFlowState option" where
  "getFlowState cid activeFlows = activeFlows cid"

definition getOrCreateFlowState ::
  "nat \<Rightarrow> string \<Rightarrow> string \<Rightarrow> flows \<Rightarrow> ConversationFlowState \<times> flows" where
  "getOrCreateFlowState now cid sid activeFlows =
     (case activeFlows cid of
        Some existing \<Rightarrow>
          (let existing' = existing\<lparr>lastActivityAt := now\<rparr>
           in (existing', activeFlows(cid \<mapsto> existing')))
      | None \<Rightarrow> initializeFlow now cid sid activeFlows)"

text \<open>
  \<open>Math.round(((currentIndex + 1) / 10) * 100)\<close>: rounding to the nearest integer, half up.
\<close>

definition getFlowStatus :: "clients \<Rightarrow> string \<Rightarrow> flows \<Rightarrow> FlowActionResult option" where
  "getFlowStatus db cid activeFlows =
     (case activeFlows cid of
        None \<Rightarrow> None
      | Some state \<Rightarrow>
          (let client = db cid;
               completionResult = completionCheck (currentStage state) state client;
               currentIndex = indexOf FLOW_SEQUENCE (currentStage state);
               n = int (length FLOW_SEQUENCE);
               progress = \<lparr>current = currentIndex + 1, total = n,
                           percentage = (2 * ((currentIndex + 1) * 100) + n) div (2 * n)\<rparr>
           in Some \<lparr>fa_currentStage = currentStage state,
                     fa_nextAction = nextAction (currentStage state),
                     fa_canProceed = fst completionResult,
                     fa_blockers = snd completionResult,
                     fa_suggestedTools = suggestedTools (currentStage state),
                     fa_progress = progress\<rparr>))"

text \<open>
  The merge \<open>{...(state.stageData[stage] || {}), ...stageData}\<close>, written into the stored
  state object whether or not the stage then completes.
\<close>

definition store_stage_data :: "ConversationFlowState \<Rightarrow> jsobj option \<Rightarrow> ConversationFlowState" where
  "store_stage_data state arg =
     (case arg of
        None \<Rightarrow> state
      | Some sd \<Rightarrow>
          state\<lparr>stageData := (stageData state)(currentStage state \<mapsto>
                    (case stageData state (currentStage state) of
                       None \<Rightarrow> Map.empty | Some old \<Rightarrow> old) ++ sd)\<rparr>)"

text \<open>The branch taken when the re-checked completion predicate holds.\<close>

definition mark_and_move :: "nat \<Rightarrow> ConversationFlowState \<Rightarrow> ConversationFlowState" where
  "mark_and_move now state =
     (let completed = push_if_absent (currentStage state) (completedStages state);
          currentIndex = indexOf FLOW_SEQUENCE (currentStage state);
          next = (if currentIndex < int (length FLOW_SEQUENCE) - 1
                  then FLOW_SEQUENCE ! nat (currentIndex + 1)
                  else currentStage state)
      in state\<lparr>completedStages := completed, currentStage := next, lastActivityAt := now\<rparr>)"

definition advanceFlow ::
  "nat \<Rightarrow> clients \<Rightarrow> string \<Rightarrow> jsobj option \<Rightarrow> flows \<Rightarrow> FlowActionResult option \<times> flows" where
  "advanceFlow now db cid stageDataArg activeFlows =
     (case activeFlows cid of
        None \<Rightarrow> (None, activeFlows)
      | Some state \<Rightarrow>
          (let client = db cid;
               state1 = store_stage_data state stageDataArg;
               updatedResult = completionCheck (currentStage state1) state1 client;
               state2 = (if fst updatedResult then mark_and_move now state1 else state1);
               activeFlows' = activeFlows(cid \<mapsto> state2)
           in (getFlowStatus db cid activeFlows', activeFlows')))"

definition confirmSummary ::
  "nat \<Rightarrow> clients \<Rightarrow> string \<Rightarrow> flows \<Rightarrow> FlowActionResult option \<times> flows" where
  "confirmSummary now db cid activeFlows =
     (case activeFlows cid of
        None \<Rightarrow> (None, activeFlows)
      | Some state \<Rightarrow>
          advanceFlow now db cid None
            (activeFlows(cid \<mapsto> state\<lparr>summaryConfirmed := True,
               stageData := (stageData state)(summary_confirmation \<mapsto>
                              [''confirmed'' \<mapsto> JBool True])\<rparr>)))"

definition prefs_json :: "SchedulingPreferences \<Rightarrow> jsval" where
  "prefs_json p =
     JObj [(''preferredDates'', JArr (map JStr (preferredDates p))),
           (''preferredTimes'', JArr (map JStr (preferredTimes p))),
           (''appointmentType'',
              JStr (case appointmentType p of virtual \<Rightarrow> ''virtual'' | in_person \<Rightarrow> ''in_person''))]"

definition setSchedulingPreferences ::
  "nat \<Rightarrow> clients \<Rightarrow> string \<Rightarrow> SchedulingPreferences \<Rightarrow> flows \<Rightarrow> FlowActionResult option \<times> flows" where
  "setSchedulingPreferences now db cid preferences activeFlows =
     (case activeFlows cid of
        None \<Rightarrow> (None, activeFlows)
      | Some state \<Rightarrow>
          advanceFlow now db cid None
            (activeFlows(cid \<mapsto> state\<lparr>preferredSchedule := Some preferences,
               stageData := (stageData state)(availability_inquiry \<mapsto>
                              [''collected'' \<mapsto> JBool True,
                               ''preferences'' \<mapsto> prefs_json preferences])\<rparr>)))"

definition setSelectedTaxPro ::
  "nat \<Rightarrow> clients \<Rightarrow> string \<Rightarrow> string \<Rightarrow> flows \<Rightarrow> FlowActionResult option \<times> flows" where
  "setSelectedTaxPro now db cid taxProId activeFlows =
     (case activeFlows cid of
        None \<Rightarrow> (None, activeFlows)
      | Some state \<Rightarrow>
          advanceFlow now db cid None
            (activeFlows(cid \<mapsto> state\<lparr>selectedTaxProId := Some taxProId,
               stageData := (stageData state)(taxpro_routing \<mapsto>
                              [''selected'' \<mapsto> JBool True,
                               ''taxProId'' \<mapsto> JStr taxProId])\<rparr>)))"

text \<open>The four reconciliation steps of \<open>syncFlowWithState\<close>, in source order.\<close>

definition sync_intake :: "ClientProfile \<Rightarrow> ConversationFlowState \<Rightarrow> ConversationFlowState" where
  "sync_intake client state =
     (if intakeCompleted client \<and> \<not> summaryConfirmed state then
        (let completed = push_if_absent intake_questions
                           (push_if_absent welcome (completedStages state));
             stage = (if currentStage state = welcome \<or> currentStage state = intake_questions
                      then summary_review else currentStage state)
         in state\<lparr>completedStages := completed, currentStage := stage\<rparr>)
      else state)"

definition sync_checklist :: "ClientProfile \<Rightarrow> ConversationFlowState \<Rightarrow> ConversationFlowState" where
  "sync_checklist client state =
     (if length (documentsCollected client) > 0 \<or> length (documentsPending client) > 0
      then state\<lparr>stageData := (stageData state)(document_checklist \<mapsto>
                                 [''generated'' \<mapsto> JBool True])\<rparr>
      else state)"

definition sync_taxpro :: "ClientProfile \<Rightarrow> ConversationFlowState \<Rightarrow> ConversationFlowState" where
  "sync_taxpro client state =
     (if truthy_str (assignedTaxPro client)
      then state\<lparr>selectedTaxProId := assignedTaxPro client\<rparr>
      else state)"

definition sync_appointment :: "ClientProfile \<Rightarrow> ConversationFlowState \<Rightarrow> ConversationFlowState" where
  "sync_appointment client state =
     (if truthy_str (appointmentId client)
      then state\<lparr>completedStages := push_if_absent appointment_scheduling (completedStages state)\<rparr>
      else state)"

definition syncFlowWithState ::
  "nat \<Rightarrow> clients \<Rightarrow> string \<Rightarrow> string \<Rightarrow> flows \<Rightarrow> ConversationFlowState \<times> flows" where
  "syncFlowWithState now db cid sid activeFlows =
     (let client = db cid;
          state = (case activeFlows cid of
                     None \<Rightarrow> fst (initializeFlow now cid sid activeFlows)
                   | Some s \<Rightarrow> s);
          state1 = (case client of
                      None \<Rightarrow> state
                    | Some c \<Rightarrow>
                        sync_appointment c (sync_taxpro c (sync_checklist c (sync_intake c state))));
          state2 = state1\<lparr>lastActivityAt := now\<rparr>
      in (state2, activeFlows(cid \<mapsto> state2)))"

subsection \<open>Reachable flow stores and the stage invariant\<close>

text \<open>
  The stores that the exported flow operations can produce from the empty map, with any
  client database, clock reading and arguments at each call.
\<close>

inductive reachable :: "flows \<Rightarrow> bool" where
  reach_empty: "reachable Map.empty"
| reach_initializeFlow:
    "reachable F \<Longrightarrow> reachable (snd (initializeFlow now cid sid F))"
| reach_getOrCreateFlowState:
    "reachable F \<Longrightarrow> reachable (snd (getOrCreateFlowState now cid sid F))"
| reach_advanceFlow:
    "reachable F \<Longrightarrow> reachable (snd (advanceFlow now db cid arg F))"
| reach_confirmSummary:
    "reachable F \<Longrightarrow> reachable (snd (confirmSummary now db cid F))"
| reach_setSchedulingPreferences:
    "reachable F \<Longrightarrow> reachable (snd (setSchedulingPreferences now db cid prefs F))"
| reach_setSelectedTaxPro:
    "reachable F \<Longrightarrow> reachable (snd (setSelectedTaxPro now db cid tid F))"
| reach_syncFlowWithState:
    "reachable F \<Longrightarrow> reachable (snd (syncFlowWithState now db cid sid F))"

text \<open>The stages strictly before a stage in \<open>FLOW_SEQUENCE\<close>.\<close>

definition stages_before :: "ConversationStage \<Rightarrow> ConversationStage list" where
  "stages_before stage = take (nat (indexOf FLOW_SEQUENCE stage)) FLOW_SEQUENCE"

text \<open>The completed stages are exactly the stages before the current one.\<close>

definition completed_exact :: "ConversationFlowState \<Rightarrow> bool" where
  "completed_exact state =
     (set (completedStages state) = set (stages_before (currentStage state)))"

text \<open>
  Every stage before the current one is completed, and a completed stage that is not before
  the current one is \<open>appointment_scheduling\<close>, or \<open>complete\<close> at the end of the flow.
\<close>

definition stage_inv :: "ConversationStage \<Rightarrow> ConversationStage list \<Rightarrow> bool" where
  "stage_inv stage completed =
     (set (stages_before stage) \<subseteq> set completed
      \<and> set completed \<subseteq> set (stages_before stage) \<union> {appointment_scheduling}
            \<union> (if stage = complete then {complete} else {}))"

definition completed_covers :: "ConversationFlowState \<Rightarrow> bool" where
  "completed_covers state = stage_inv (currentStage state) (completedStages state)"

text \<open>Every stored state satisfies \<open>completed_covers\<close>.\<close>

definition all_covered :: "flows \<Rightarrow> bool" where
  "all_covered F = (\<forall>cid state. F cid = Some state \<longrightarrow> completed_covers state)"

text \<open>The reconciliation steps of \<open>syncFlowWithState\<close> for a client that exists, composed.\<close>

definition sync_all :: "ClientProfile \<Rightarrow> ConversationFlowState \<Rightarrow> ConversationFlowState" where
  "sync_all c state = sync_appointment c (sync_taxpro c (sync_checklist c (sync_intake c state)))"

text \<open>The position of a state's current stage in the sequence.\<close>

definition stage_index :: "ConversationFlowState \<Rightarrow> int" where
  "stage_index state = indexOf FLOW_SEQUENCE (currentStage state)"

section \<open>TaxPilot: complexity scoring and routing\<close>

datatype ComplexityLevel = simple | moderate | complex | expert

datatype Specialization =
    individual
  | self_employment
  | small_business
  | investments
  | real_estate
  | crypto
  | foreign_income
  | estate_planning
  | audit_representation

record TaxProfessional =
  tp_id :: string
  tp_name :: string
  tp_email :: string
  specializations :: "Specialization list"
  maxComplexity :: ComplexityLevel
  currentLoad :: int
  maxDailyAppointments :: int
  available :: bool
  rating :: rat

text \<open>\<open>determineMaxComplexity\<close> of the roster loader; \<open>minLevel\<close> is not read.\<close>

definition determineMaxComplexity :: "int \<Rightarrow> int \<Rightarrow> ComplexityLevel" where
  "determineMaxComplexity minLevel maxLevel =
     (if maxLevel \<ge> 81 then expert
      else if maxLevel \<ge> 51 then complex
      else if maxLevel \<ge> 21 then moderate
      else simple)"

text \<open>
  \<open>Database.getAvailableTaxPros\<close>: the roster is the list of the map's values in insertion
  order.
\<close>

definition getAvailableTaxPros :: "TaxProfessional list \<Rightarrow> TaxProfessional list" where
  "getAvailableTaxPros taxPros =
     filter (\<lambda>tp. available tp \<and> currentLoad tp < maxDailyAppointments tp) taxPros"

text \<open>The fallback roster installed by the database constructor.\<close>

definition tp_001 :: TaxProfessional where
  "tp_001 = \<lparr>tp_id = ''tp-001'', tp_name = ''Sarah Johnson'',
             tp_email = ''sarah.johnson@taxfirm.com'',
             specializations = [individual, self_employment], maxComplexity = moderate,
             currentLoad = 3, maxDailyAppointments = 8, available = True, rating = 48 / 10\<rparr>"

definition tp_002 :: TaxProfessional where
  "tp_002 = \<lparr>tp_id = ''tp-002'', tp_name = ''Michael Chen'',
             tp_email = ''michael.chen@taxfirm.com'',
             specializations = [investments, crypto, foreign_income], maxComplexity = expert,
             currentLoad = 5, maxDailyAppointments = 6, available = True, rating = 49 / 10\<rparr>"

definition tp_003 :: TaxProfessional where
  "tp_003 = \<lparr>tp_id = ''tp-003'', tp_name = ''Emily Rodriguez'',
             tp_email = ''emily.rodriguez@taxfirm.com'',
             specializations = [small_business, self_employment, real_estate],
             maxComplexity = complex,
             currentLoad = 4, maxDailyAppointments = 7, available = True, rating = 47 / 10\<rparr>"

definition tp_004 :: TaxProfessional where
  "tp_004 = \<lparr>tp_id = ''tp-004'', tp_name = ''James Wilson'',
             tp_email = ''james.wilson@taxfirm.com'',
             specializations = [individual], maxComplexity = simple,
             currentLoad = 6, maxDailyAppointments = 12, available = True, rating = 45 / 10\<rparr>"

definition tp_005 :: TaxProfessional where
  "tp_005 = \<lparr>tp_id = ''tp-005'', tp_name = ''Dr. Patricia Martinez'',
             tp_email = ''patricia.martinez@taxfirm.com'',
             specializations = [estate_planning, foreign_income, audit_representation],
             maxComplexity = expert,
             currentLoad = 2, maxDailyAppointments = 4, available = True, rating = 5\<rparr>"

definition fallbackPros :: "TaxProfessional list" where
  "fallbackPros = [tp_001, tp_002, tp_003, tp_004, tp_005]"

subsection \<open>The routing engine\<close>

text \<open>
  Modelled from the spec: \<open>getComplexityLevel\<close> of the routing service, whose source is
  not in the repository snapshot. Tiers: simple up to 20, moderate 21 to 50, complex 51 to
  80, expert from 81.
\<close>

definition getComplexityLevel :: "int \<Rightarrow> ComplexityLevel" where
  "getComplexityLevel score =
     (if score \<le> 20 then simple
      else if score \<le> 50 then moderate
      else if score \<le> 80 then complex
      else expert)"

text \<open>
  Modelled from the spec: the ordinal of a complexity level, in the order simple, moderate,
  complex, expert of the data model; the routing service that compares levels is not in
  the repository snapshot.
\<close>

fun levelOrdinal :: "ComplexityLevel \<Rightarrow> nat" where
  "levelOrdinal simple = 0"
| "levelOrdinal moderate = 1"
| "levelOrdinal complex = 2"
| "levelOrdinal expert = 3"

text \<open>
  Modelled from the spec: the weight table of the score, which the specification leaves to
  the implementation and whose source is not in the repository snapshot: one weight per
  filing status, dependent count, income type, deduction and special situation. The
  specification has every contribution add to the score (a fixed positive weight for each
  special situation, smaller weights for filing status and dependents), so the weights are
  natural numbers: no entry of the table subtracts from the score.
\<close>

record ScoreWeights =
  filingWeight :: "string \<Rightarrow> nat"
  dependentWeight :: "nat \<Rightarrow> nat"
  incomeWeight :: "string \<Rightarrow> nat"
  deductionWeight :: "string \<Rightarrow> nat"
  situationWeight :: "string \<Rightarrow> nat"

text \<open>
  Modelled from the spec: the sum inside \<open>calculateComplexityScore\<close> (routing service, not
  in the repository snapshot): the weighted contributions of filing status, dependent
  count, income-type tags, deduction tags and special-situation tags, added up.
\<close>

definition rawScore :: "ScoreWeights \<Rightarrow> ClientProfile \<Rightarrow> int" where
  "rawScore W client =
     int (filingWeight W (filingStatus client))
     + int (dependentWeight W (dependents client))
     + int (sum_list (map (incomeWeight W) (incomeTypes client)))
     + int (sum_list (map (deductionWeight W) (deductions client)))
     + int (sum_list (map (situationWeight W) (specialSituations client)))"

text \<open>
  Modelled from the spec: \<open>calculateComplexityScore\<close> of the routing service, whose source
  is not in the repository snapshot. The additive score, kept within 0 and 100.
\<close>

definition calculateComplexityScore :: "ScoreWeights \<Rightarrow> ClientProfile \<Rightarrow> int" where
  "calculateComplexityScore W client = max 0 (min 100 (rawScore W client))"


text \<open>
  Modelled from the spec: \<open>getRequiredSpecializations\<close> of the routing service, whose source
  is not in the repository snapshot. The specializations are derived from the
  special-situation tags through a tag table; no special tags require \<open>individual\<close> only.
\<close>

definition getRequiredSpecializations ::
  "(string \<rightharpoonup> Specialization) \<Rightarrow> ClientProfile \<Rightarrow> Specialization list" where
  "getRequiredSpecializations tagSpec client =
     (if specialSituations client = [] then [individual]
      else remdups (List.map_filter tagSpec (specialSituations client)))"

text \<open>
  Modelled from the spec: the ranking used by \<open>findBestTaxPro\<close> (routing service, not in the
  repository snapshot): higher rating first, then lower current load; candidates equal in
  both keep their roster order. The ranked list is built by stable insertion.
\<close>

definition ranksBefore :: "TaxProfessional \<Rightarrow> TaxProfessional \<Rightarrow> bool" where
  "ranksBefore a b =
     (rating a > rating b \<or> (rating a = rating b \<and> currentLoad a < currentLoad b))"

fun insertRanked :: "TaxProfessional \<Rightarrow> TaxProfessional list \<Rightarrow> TaxProfessional list" where
  "insertRanked x [] = [x]"
| "insertRanked x (y # ys) = (if ranksBefore x y then x # y # ys else y # insertRanked x ys)"

definition rankCandidates :: "TaxProfessional list \<Rightarrow> TaxProfessional list" where
  "rankCandidates candidates = foldl (\<lambda>ranked tp. insertRanked tp ranked) [] candidates"

text \<open>
  The result of \<open>findBestTaxPro\<close> as declared in \<open>routing.d.ts\<close>, without the free-text
  \<open>reason\<close>.
\<close>

record RoutingResult =
  taxPro :: "TaxProfessional option"
  alternates :: "TaxProfessional list"

text \<open>
  Modelled from the spec: the candidate test of \<open>findBestTaxPro\<close> (routing service, not in
  the repository snapshot): the professional's maximum level is at least the client's
  level, and the professional has every required specialization.
\<close>

definition qualifies ::
  "ComplexityLevel \<Rightarrow> Specialization list \<Rightarrow> TaxProfessional \<Rightarrow> bool" where
  "qualifies level required tp =
     (levelOrdinal (maxComplexity tp) \<ge> levelOrdinal level
      \<and> list_all (\<lambda>s. s \<in> set (specializations tp)) required)"

text \<open>
  Modelled from the spec: \<open>findBestTaxPro\<close> of the routing service, whose source is not in
  the repository snapshot. The candidates are the available professionals under their
  daily limit that handle the client's level and cover every required specialization; the
  best ranked is returned with up to \<open>n\<close> alternates.
\<close>

definition findBestTaxPro ::
  "ScoreWeights \<Rightarrow> (string \<rightharpoonup> Specialization) \<Rightarrow> nat \<Rightarrow> TaxProfessional list \<Rightarrow> ClientProfile
     \<Rightarrow> RoutingResult" where
  "findBestTaxPro W tagSpec n taxPros client =
     (let level = getComplexityLevel (calculateComplexityScore W client);
          required = getRequiredSpecializations tagSpec client;
          candidates = filter (qualifies level required) (getAvailableTaxPros taxPros)
      in case rankCandidates candidates of
           [] \<Rightarrow> \<lparr>taxPro = None, alternates = []\<rparr>
         | best # others \<Rightarrow> \<lparr>taxPro = Some best, alternates = take n others\<rparr>)"

section \<open>Example data\<close>

definition client_new :: ClientProfile where
  "client_new =
     \<lparr>filingStatus = ''single'', dependents = 0, incomeTypes = [], deductions = [],
      specialSituations = [], intakeCompleted = False, documentsCollected = [],
      documentsPending = [], assignedTaxPro = None, appointmentId = None\<rparr>"

definition client_intake_done :: ClientProfile where
  "client_intake_done = client_new\<lparr>intakeCompleted := True\<rparr>"

definition client_with_appointment :: ClientProfile where
  "client_with_appointment = client_new\<lparr>appointmentId := Some ''apt-1''\<rparr>"

definition flow_fresh :: ConversationFlowState where
  "flow_fresh = fst (initializeFlow 0 ''c1'' ''s1'' Map.empty)"

definition flow_at_reminders :: ConversationFlowState where
  "flow_at_reminders =
     \<lparr>clientId = ''c1'', sessionId = ''s1'', currentStage = reminders_setup,
      completedStages = [welcome, intake_questions, summary_review, summary_confirmation,
        document_checklist, availability_inquiry, taxpro_routing, appointment_scheduling],
      stageData = Map.empty, startedAt = 0, lastActivityAt = 0, summaryConfirmed = True,
      selectedTaxProId = Some ''tp-001'', preferredSchedule = None\<rparr>"

definition flow_at_complete :: ConversationFlowState where
  "flow_at_complete =
     flow_at_reminders\<lparr>currentStage := complete,
       completedStages := completedStages flow_at_reminders @ [reminders_setup]\<rparr>"

definition flow_at_intake :: ConversationFlowState where
  "flow_at_intake =
     flow_fresh\<lparr>currentStage := intake_questions, completedStages := [welcome],
       lastActivityAt := 1\<rparr>"

definition exampleWeights :: ScoreWeights where
  "exampleWeights =
     \<lparr>filingWeight = (\<lambda>_. 5), dependentWeight = (\<lambda>n. n), incomeWeight = (\<lambda>_. 10),
      deductionWeight = (\<lambda>_. 5), situationWeight = (\<lambda>_. 30)\<rparr>"

definition tagSpecialization :: "string \<rightharpoonup> Specialization" where
  "tagSpecialization =
     [''crypto'' \<mapsto> crypto, ''self_employment'' \<mapsto> self_employment,
      ''foreign_accounts'' \<mapsto> foreign_income, ''rental'' \<mapsto> real_estate]"

section \<open>Properties of the flow manager\<close>

lemma indexOf_FLOW_SEQUENCE:
  "indexOf FLOW_SEQUENCE welcome = 0"
  "indexOf FLOW_SEQUENCE intake_questions = 1"
  "indexOf FLOW_SEQUENCE summary_review = 2"
  "indexOf FLOW_SEQUENCE summary_confirmation = 3"
  "indexOf FLOW_SEQUENCE document_checklist = 4"
  "indexOf FLOW_SEQUENCE availability_inquiry = 5"
  "indexOf FLOW_SEQUENCE taxpro_routing = 6"
  "indexOf FLOW_SEQUENCE appointment_scheduling = 7"
  "indexOf FLOW_SEQUENCE reminders_setup = 8"
  "indexOf FLOW_SEQUENCE complete = 9"
  by (simp_all add: FLOW_SEQUENCE_def)

text \<open>
  C10. When a flow state already exists for the client, \<open>getOrCreateFlowState\<close> returns that
  state with only \<open>lastActivityAt\<close> changed and stores it back: the \<open>sessionId\<close> argument is
  discarded, and \<open>sessionId\<close>, \<open>currentStage\<close>, \<open>completedStages\<close> and \<open>stageData\<close> are those of
  the existing state.
\<close>

theorem getOrCreateFlowState_existing:
  assumes "activeFlows cid = Some existing"
  shows "getOrCreateFlowState now cid sid activeFlows =
           (existing\<lparr>lastActivityAt := now\<rparr>,
            activeFlows(cid \<mapsto> existing\<lparr>lastActivityAt := now\<rparr>))
         \<and> sessionId (fst (getOrCreateFlowState now cid sid activeFlows)) = sessionId existing
         \<and> currentStage (fst (getOrCreateFlowState now cid sid activeFlows)) = currentStage existing
         \<and> completedStages (fst (getOrCreateFlowState now cid sid activeFlows))
             = completedStages existing
         \<and> stageData (fst (getOrCreateFlowState now cid sid activeFlows)) = stageData existing"
  using assms by (simp add: getOrCreateFlowState_def Let_def)


theorem getOrCreateFlowState_existing_witness:
  "[''c1'' \<mapsto> flow_at_reminders] ''c1'' = Some flow_at_reminders
   \<and> sessionId flow_at_reminders = ''s1''
   \<and> sessionId (fst (getOrCreateFlowState 7 ''c1'' ''s2'' [''c1'' \<mapsto> flow_at_reminders]))
       = ''s1''
   \<and> lastActivityAt (fst (getOrCreateFlowState 7 ''c1'' ''s2'' [''c1'' \<mapsto> flow_at_reminders]))
       = 7"
  using getOrCreateFlowState_existing
          [of "[''c1'' \<mapsto> flow_at_reminders]" "''c1''" flow_at_reminders 7 "''s2''"]
  by (simp add: flow_at_reminders_def)

subsection \<open>Calls for a client without a flow\<close>

text \<open>
  C8. For a client id without a flow state, \<open>advanceFlow\<close>, \<open>getFlowStatus\<close>, \<open>confirmSummary\<close>,
  \<open>setSchedulingPreferences\<close> and \<open>setSelectedTaxPro\<close> each return null (no exception is a
  branch of any of them) and leave the stored flow states unchanged.
\<close>

theorem missing_flow_returns_null:
  assumes "activeFlows cid = None"
  shows "advanceFlow now db cid arg activeFlows = (None, activeFlows)
       \<and> getFlowStatus db cid activeFlows = None
       \<and> confirmSummary now db cid activeFlows = (None, activeFlows)
       \<and> setSchedulingPreferences now db cid prefs activeFlows = (None, activeFlows)
       \<and> setSelectedTaxPro now db cid tid activeFlows = (None, activeFlows)"
  using assms
  by (simp add: advanceFlow_def getFlowStatus_def confirmSummary_def
        setSchedulingPreferences_def setSelectedTaxPro_def)

theorem missing_flow_returns_null_witness:
  "[''c1'' \<mapsto> flow_fresh] ''c2'' = None
   \<and> advanceFlow 1 Map.empty ''c2'' (Some [''started'' \<mapsto> JBool True]) [''c1'' \<mapsto> flow_fresh]
       = (None, [''c1'' \<mapsto> flow_fresh])
   \<and> getFlowStatus Map.empty ''c2'' [''c1'' \<mapsto> flow_fresh] = None
   \<and> confirmSummary 1 Map.empty ''c2'' [''c1'' \<mapsto> flow_fresh] = (None, [''c1'' \<mapsto> flow_fresh])
   \<and> setSelectedTaxPro 1 Map.empty ''c2'' ''tp-001'' [''c1'' \<mapsto> flow_fresh]
       = (None, [''c1'' \<mapsto> flow_fresh])"
  using missing_flow_returns_null
          [of "[''c1'' \<mapsto> flow_fresh]" "''c2''" 1 Map.empty
              "Some [''started'' \<mapsto> JBool True]" _ "''tp-001''"]
  by simp

subsection \<open>One call of \<open>advanceFlow\<close>\<close>

lemma store_stage_data_stage [simp]:
  "currentStage (store_stage_data state arg) = currentStage state"
  "completedStages (store_stage_data state arg) = completedStages state"
  by (simp_all add: store_stage_data_def split: option.splits)

lemma advanceFlow_lookup:
  "activeFlows cid = Some state \<Longrightarrow>
   snd (advanceFlow now db cid arg activeFlows) cid =
     Some (let state1 = store_stage_data state arg
           in if fst (completionCheck (currentStage state1) state1 (db cid))
              then mark_and_move now state1 else state1)"
  by (simp add: advanceFlow_def Let_def)

lemma advanceFlow_result:
  "fst (advanceFlow now db cid arg F) = getFlowStatus db cid (snd (advanceFlow now db cid arg F))"
  by (simp add: advanceFlow_def getFlowStatus_def Let_def split: option.splits)

lemma getFlowStatus_stage:
  "map_option fa_currentStage (getFlowStatus db cid F) = map_option currentStage (F cid)"
  by (simp add: getFlowStatus_def Let_def split: option.splits)

lemma advanceFlow_result_stage:
  "map_option fa_currentStage (fst (advanceFlow now db cid arg F))
     = map_option currentStage (snd (advanceFlow now db cid arg F) cid)"
  by (simp only: advanceFlow_result getFlowStatus_stage)

lemma mark_and_move_index:
  "stage_index (mark_and_move now state) = stage_index state
   \<or> stage_index (mark_and_move now state) = stage_index state + 1"
  by (cases "currentStage state")
     (simp_all add: stage_index_def mark_and_move_def Let_def indexOf_FLOW_SEQUENCE,
      simp_all add: FLOW_SEQUENCE_def indexOf_FLOW_SEQUENCE[unfolded FLOW_SEQUENCE_def])

lemma mark_and_move_complete:
  "currentStage state = complete \<Longrightarrow>
   mark_and_move now state =
     state\<lparr>completedStages := push_if_absent complete (completedStages state),
           lastActivityAt := now\<rparr>"
  by (simp add: mark_and_move_def Let_def indexOf_FLOW_SEQUENCE FLOW_SEQUENCE_def)

text \<open>
  C2. Whatever the stored state, the client database and the \<open>stageData\<close> argument, after
  one call of \<open>advanceFlow\<close> the current stage is at the same position of the sequence or
  at the next one: never earlier, never more than one step ahead.
\<close>

theorem advanceFlow_at_most_one_stage:
  assumes "activeFlows cid = Some state"
  shows "\<exists>state'. snd (advanceFlow now db cid arg activeFlows) cid = Some state'
           \<and> (stage_index state' = stage_index state
                \<or> stage_index state' = stage_index state + 1)"
proof -
  let ?s1 = "store_stage_data state arg"
  have same: "stage_index ?s1 = stage_index state"
    by (simp add: stage_index_def)
  show ?thesis
  proof (cases "fst (completionCheck (currentStage ?s1) ?s1 (db cid))")
    case True
    then have "snd (advanceFlow now db cid arg activeFlows) cid = Some (mark_and_move now ?s1)"
      using assms by (simp add: advanceFlow_lookup)
    then show ?thesis
      using mark_and_move_index [of now ?s1] same by auto
  next
    case False
    then have "snd (advanceFlow now db cid arg activeFlows) cid = Some ?s1"
      using assms by (simp add: advanceFlow_lookup)
    then show ?thesis using same by simp
  qed
qed

text \<open>
  At \<open>welcome\<close> with a session id and a client whose intake is already completed, the
  predicates of \<open>welcome\<close> and of \<open>intake_questions\<close> both hold; the call stops at
  \<open>intake_questions\<close>.
\<close>

theorem advanceFlow_at_most_one_stage_witness:
  "[''c1'' \<mapsto> flow_fresh] ''c1'' = Some flow_fresh
   \<and> stage_index flow_fresh = 0
   \<and> fst (completionCheck intake_questions flow_fresh (Some client_intake_done))
   \<and> (\<exists>state'. snd (advanceFlow 1 [''c1'' \<mapsto> client_intake_done] ''c1'' None
                      [''c1'' \<mapsto> flow_fresh]) ''c1'' = Some state'
          \<and> currentStage state' = intake_questions
          \<and> (stage_index state' = stage_index flow_fresh
               \<or> stage_index state' = stage_index flow_fresh + 1))"
  using advanceFlow_at_most_one_stage
          [of "[''c1'' \<mapsto> flow_fresh]" "''c1''" flow_fresh 1
              "[''c1'' \<mapsto> client_intake_done]" None]
  by (auto simp add: advanceFlow_lookup flow_fresh_def initializeFlow_def client_intake_done_def
        client_new_def store_stage_data_def mark_and_move_def push_if_absent_def Let_def
        stage_index_def indexOf_FLOW_SEQUENCE FLOW_SEQUENCE_def)

text \<open>
  C9. A flow initialized with a non-empty session id is at \<open>welcome\<close>; \<open>advanceFlow\<close> with
  \<open>{started: true}\<close> moves it to \<open>intake_questions\<close>, and a following \<open>advanceFlow\<close> without
  stage data, for a client absent from the database or with an incomplete intake, leaves
  it at \<open>intake_questions\<close>. Both calls report \<open>intake_questions\<close> in the status they
  return.
\<close>

theorem welcome_then_intake_scenario:
  assumes "sid \<noteq> []"
      and "\<forall>c. db' cid = Some c \<longrightarrow> \<not> intakeCompleted c"
  shows "map_option currentStage
           (snd (advanceFlow now1 db cid (Some [''started'' \<mapsto> JBool True])
              (snd (initializeFlow now0 cid sid activeFlows))) cid) = Some intake_questions
       \<and> map_option currentStage
           (snd (advanceFlow now2 db' cid None
              (snd (advanceFlow now1 db cid (Some [''started'' \<mapsto> JBool True])
                 (snd (initializeFlow now0 cid sid activeFlows))))) cid)
           = Some intake_questions
       \<and> map_option fa_currentStage
           (fst (advanceFlow now1 db cid (Some [''started'' \<mapsto> JBool True])
              (snd (initializeFlow now0 cid sid activeFlows)))) = Some intake_questions
       \<and> map_option fa_currentStage
           (fst (advanceFlow now2 db' cid None
              (snd (advanceFlow now1 db cid (Some [''started'' \<mapsto> JBool True])
                 (snd (initializeFlow now0 cid sid activeFlows))))))
           = Some intake_questions"
proof -
  let ?F0 = "snd (initializeFlow now0 cid sid activeFlows)"
  let ?F1 = "snd (advanceFlow now1 db cid (Some [''started'' \<mapsto> JBool True]) ?F0)"
  let ?s1 = "\<lambda>s0. mark_and_move now1 (store_stage_data s0 (Some [''started'' \<mapsto> JBool True]))"
  obtain s0 where s0: "?F0 cid = Some s0" "currentStage s0 = welcome" "sessionId s0 = sid"
    by (simp add: initializeFlow_def Let_def)
  have F1: "?F1 cid = Some (?s1 s0)"
    using s0 assms(1) by (simp add: advanceFlow_lookup Let_def store_stage_data_def)
  have st1: "currentStage (?s1 s0) = intake_questions"
    using s0 by (simp add: mark_and_move_def Let_def indexOf_FLOW_SEQUENCE FLOW_SEQUENCE_def)
  have not_done: "\<not> (case db' cid of None \<Rightarrow> False | Some c \<Rightarrow> intakeCompleted c)"
    using assms(2) by (simp split: option.splits)
  have F2: "map_option currentStage (snd (advanceFlow now2 db' cid None ?F1) cid)
              = Some intake_questions"
    using F1 st1 not_done
    by (simp add: advanceFlow_lookup [where state = "?s1 s0"] Let_def store_stage_data_def)
  show ?thesis using F1 st1 F2 by (simp add: advanceFlow_result_stage)
qed

theorem welcome_then_intake_scenario_witness:
  "''s1'' \<noteq> []
   \<and> [''c1'' \<mapsto> client_new] ''c1'' = Some client_new
   \<and> \<not> intakeCompleted client_new
   \<and> map_option currentStage
        (snd (advanceFlow 1 [''c1'' \<mapsto> client_new] ''c1'' (Some [''started'' \<mapsto> JBool True])
           (snd (initializeFlow 0 ''c1'' ''s1'' Map.empty))) ''c1'') = Some intake_questions
   \<and> map_option currentStage
        (snd (advanceFlow 2 [''c1'' \<mapsto> client_new] ''c1'' None
           (snd (advanceFlow 1 [''c1'' \<mapsto> client_new] ''c1'' (Some [''started'' \<mapsto> JBool True])
              (snd (initializeFlow 0 ''c1'' ''s1'' Map.empty))))) ''c1'')
        = Some intake_questions"
  using welcome_then_intake_scenario
          [of "''s1''" "[''c1'' \<mapsto> client_new]" "''c1''" 1 "[''c1'' \<mapsto> client_new]" 0
              Map.empty 2]
  by (simp add: client_new_def)

subsection \<open>\<open>advanceFlow\<close> at the last stage\<close>

text \<open>
  C3, as the code has it. When the current stage is \<open>complete\<close>, every call of
  \<open>advanceFlow\<close>, with or without stage data, leaves \<open>currentStage\<close> at \<open>complete\<close> and
  refreshes \<open>lastActivityAt\<close>; \<open>completedStages\<close> is unchanged when it already lists
  \<open>complete\<close>, and gains \<open>complete\<close> at its end otherwise; a call without stage data leaves
  \<open>stageData\<close> unchanged.
\<close>

theorem advanceFlow_at_complete:
  assumes "activeFlows cid = Some state" and "currentStage state = complete"
  shows "snd (advanceFlow now db cid arg activeFlows) cid =
           Some ((store_stage_data state arg)
                   \<lparr>completedStages := push_if_absent complete (completedStages state),
                    lastActivityAt := now\<rparr>)
         \<and> map_option currentStage (snd (advanceFlow now db cid arg activeFlows) cid)
             = Some complete
         \<and> map_option completedStages (snd (advanceFlow now db cid arg activeFlows) cid)
             = Some (push_if_absent complete (completedStages state))
         \<and> map_option stageData (snd (advanceFlow now db cid None activeFlows) cid)
             = Some (stageData state)
         \<and> (complete \<in> set (completedStages state) \<longrightarrow>
              push_if_absent complete (completedStages state) = completedStages state)
         \<and> (complete \<notin> set (completedStages state) \<longrightarrow>
              push_if_absent complete (completedStages state) = completedStages state @ [complete])"
proof -
  have at_end: "currentStage (store_stage_data state a) = complete" for a
    using assms(2) by simp
  have step: "snd (advanceFlow now db cid a activeFlows) cid =
                Some ((store_stage_data state a)
                        \<lparr>completedStages := push_if_absent complete (completedStages state),
                         lastActivityAt := now\<rparr>)" for a
    using assms(1) at_end [of a] mark_and_move_complete [OF at_end, of now a]
    by (simp add: advanceFlow_lookup Let_def)
  have no_data: "store_stage_data state None = state"
    by (simp add: store_stage_data_def)
  show ?thesis
    using step [of arg] step [of None] at_end [of arg] no_data
    by (simp add: push_if_absent_def)
qed

text \<open>
  At \<open>complete\<close> with the nine earlier stages completed, a call that carries stage data
  keeps the stage and appends \<open>complete\<close>; a call without stage data keeps \<open>stageData\<close>.
\<close>

theorem advanceFlow_at_complete_witness:
  "[''c1'' \<mapsto> flow_at_complete] ''c1'' = Some flow_at_complete
   \<and> currentStage flow_at_complete = complete
   \<and> complete \<notin> set (completedStages flow_at_complete)
   \<and> map_option currentStage
        (snd (advanceFlow 5 Map.empty ''c1'' (Some [''note'' \<mapsto> JStr ''done''])
           [''c1'' \<mapsto> flow_at_complete]) ''c1'') = Some complete
   \<and> map_option completedStages
        (snd (advanceFlow 5 Map.empty ''c1'' (Some [''note'' \<mapsto> JStr ''done''])
           [''c1'' \<mapsto> flow_at_complete]) ''c1'')
        = Some (completedStages flow_at_complete @ [complete])
   \<and> map_option stageData
        (snd (advanceFlow 5 Map.empty ''c1'' None [''c1'' \<mapsto> flow_at_complete]) ''c1'')
        = Some (stageData flow_at_complete)"
  using advanceFlow_at_complete
          [of "[''c1'' \<mapsto> flow_at_complete]" "''c1''" flow_at_complete 5 Map.empty
              "Some [''note'' \<mapsto> JStr ''done'']"]
  by (simp add: flow_at_complete_def flow_at_reminders_def)

text \<open>
  The claim as stated fails: from \<open>reminders_setup\<close> with the reminders created, one call
  reaches \<open>complete\<close> with the nine earlier stages completed, and the next call, without
  stage data, appends \<open>complete\<close> to \<open>completedStages\<close>.
\<close>

theorem advanceFlow_at_complete_counterexample:
  "map_option currentStage
     (snd (advanceFlow 1 Map.empty ''c1'' (Some [''created'' \<mapsto> JBool True])
        [''c1'' \<mapsto> flow_at_reminders]) ''c1'') = Some complete
   \<and> map_option completedStages
     (snd (advanceFlow 1 Map.empty ''c1'' (Some [''created'' \<mapsto> JBool True])
        [''c1'' \<mapsto> flow_at_reminders]) ''c1'')
     = Some [welcome, intake_questions, summary_review, summary_confirmation,
        document_checklist, availability_inquiry, taxpro_routing, appointment_scheduling,
        reminders_setup]
   \<and> map_option completedStages
     (snd (advanceFlow 2 Map.empty ''c1'' None
        (snd (advanceFlow 1 Map.empty ''c1'' (Some [''created'' \<mapsto> JBool True])
           [''c1'' \<mapsto> flow_at_reminders]))) ''c1'')
     = Some [welcome, intake_questions, summary_review, summary_confirmation,
        document_checklist, availability_inquiry, taxpro_routing, appointment_scheduling,
        reminders_setup, complete]"
  by (simp add: advanceFlow_lookup flow_at_reminders_def store_stage_data_def stage_flag_def
        mark_and_move_def push_if_absent_def Let_def indexOf_FLOW_SEQUENCE FLOW_SEQUENCE_def)


subsection \<open>Completed stages of reachable flows\<close>

lemma set_stages_before:
  "set (stages_before welcome) = {}"
  "set (stages_before intake_questions) = {welcome}"
  "set (stages_before summary_review) = {welcome, intake_questions}"
  "set (stages_before summary_confirmation) = {welcome, intake_questions, summary_review}"
  "set (stages_before document_checklist) =
     {welcome, intake_questions, summary_review, summary_confirmation}"
  "set (stages_before availability_inquiry) =
     {welcome, intake_questions, summary_review, summary_confirmation, document_checklist}"
  "set (stages_before taxpro_routing) =
     {welcome, intake_questions, summary_review, summary_confirmation, document_checklist,
      availability_inquiry}"
  "set (stages_before appointment_scheduling) =
     {welcome, intake_questions, summary_review, summary_confirmation, document_checklist,
      availability_inquiry, taxpro_routing}"
  "set (stages_before reminders_setup) =
     {welcome, intake_questions, summary_review, summary_confirmation, document_checklist,
      availability_inquiry, taxpro_routing, appointment_scheduling}"
  "set (stages_before complete) =
     {welcome, intake_questions, summary_review, summary_confirmation, document_checklist,
      availability_inquiry, taxpro_routing, appointment_scheduling, reminders_setup}"
  by (simp_all add: stages_before_def indexOf_FLOW_SEQUENCE, simp_all add: FLOW_SEQUENCE_def)

lemma set_push_if_absent [simp]: "set (push_if_absent x xs) = insert x (set xs)"
  by (auto simp: push_if_absent_def)

lemma next_stage:
  "currentStage (mark_and_move now state) =
     (case currentStage state of
        welcome \<Rightarrow> intake_questions
      | intake_questions \<Rightarrow> summary_review
      | summary_review \<Rightarrow> summary_confirmation
      | summary_confirmation \<Rightarrow> document_checklist
      | document_checklist \<Rightarrow> availability_inquiry
      | availability_inquiry \<Rightarrow> taxpro_routing
      | taxpro_routing \<Rightarrow> appointment_scheduling
      | appointment_scheduling \<Rightarrow> reminders_setup
      | reminders_setup \<Rightarrow> complete
      | complete \<Rightarrow> complete)"
  by (cases "currentStage state")
     (simp_all add: mark_and_move_def Let_def indexOf_FLOW_SEQUENCE,
      simp_all add: FLOW_SEQUENCE_def)

lemma completed_mark_and_move [simp]:
  "completedStages (mark_and_move now state) =
     push_if_absent (currentStage state) (completedStages state)"
  by (simp add: mark_and_move_def Let_def)

lemma covers_mark_and_move:
  "completed_covers state \<Longrightarrow> completed_covers (mark_and_move now state)"
  unfolding completed_covers_def stage_inv_def
  by (cases "currentStage state")
     (simp_all add: next_stage set_stages_before, blast+)


lemma covers_store_stage_data [simp]:
  "completed_covers (store_stage_data state arg) = completed_covers state"
  by (simp add: completed_covers_def)

lemma covers_initial: "completed_covers (fst (initializeFlow now cid sid F))"
  by (simp add: initializeFlow_def Let_def completed_covers_def stage_inv_def set_stages_before)

lemma covers_sync_intake:
  "completed_covers state \<Longrightarrow> completed_covers (sync_intake client state)"
  unfolding completed_covers_def stage_inv_def sync_intake_def Let_def
  by (cases "currentStage state") (simp_all add: set_stages_before, blast+)

lemma covers_sync_checklist:
  "completed_covers state \<Longrightarrow> completed_covers (sync_checklist client state)"
  by (simp add: completed_covers_def sync_checklist_def)

lemma covers_sync_taxpro:
  "completed_covers state \<Longrightarrow> completed_covers (sync_taxpro client state)"
  by (simp add: completed_covers_def sync_taxpro_def)

lemma covers_sync_appointment:
  "completed_covers state \<Longrightarrow> completed_covers (sync_appointment client state)"
  unfolding completed_covers_def stage_inv_def sync_appointment_def
  by (cases "currentStage state") (simp_all add: set_stages_before, blast+)

lemma all_covered_upd:
  "all_covered F \<Longrightarrow> completed_covers state \<Longrightarrow> all_covered (F(cid \<mapsto> state))"
  by (simp add: all_covered_def)

lemma initializeFlow_snd:
  "snd (initializeFlow now cid sid F) = F(cid \<mapsto> fst (initializeFlow now cid sid F))"
  by (simp add: initializeFlow_def Let_def)

lemma all_covered_initializeFlow:
  "all_covered F \<Longrightarrow> all_covered (snd (initializeFlow now cid sid F))"
  unfolding initializeFlow_snd by (rule all_covered_upd) (simp_all add: covers_initial)

lemma all_covered_advanceFlow:
  "all_covered F \<Longrightarrow> all_covered (snd (advanceFlow now db cid arg F))"
proof (cases "F cid")
  case None
  assume "all_covered F"
  with None show ?thesis by (simp add: advanceFlow_def)
next
  case (Some state)
  assume cov: "all_covered F"
  then have "completed_covers state" using Some by (simp add: all_covered_def)
  then have "completed_covers
               (if fst (completionCheck (currentStage (store_stage_data state arg))
                          (store_stage_data state arg) (db cid))
                then mark_and_move now (store_stage_data state arg)
                else store_stage_data state arg)"
    by (simp add: covers_mark_and_move)
  with cov Some show ?thesis
    by (simp add: advanceFlow_def Let_def all_covered_upd)
qed

lemma all_covered_syncFlowWithState:
  assumes "all_covered F"
  shows "all_covered (snd (syncFlowWithState now db cid sid F))"
proof -
  let ?state = "case F cid of None \<Rightarrow> fst (initializeFlow now cid sid F) | Some s \<Rightarrow> s"
  have start: "completed_covers ?state"
    using assms by (auto simp: all_covered_def covers_initial split: option.splits)
  have "completed_covers
          (case db cid of None \<Rightarrow> ?state
           | Some c \<Rightarrow> sync_appointment c (sync_taxpro c (sync_checklist c (sync_intake c ?state))))"
    using start
    by (simp add: covers_sync_intake covers_sync_checklist covers_sync_taxpro
          covers_sync_appointment split: option.splits)
  then have "completed_covers
          ((case db cid of None \<Rightarrow> ?state
           | Some c \<Rightarrow> sync_appointment c (sync_taxpro c (sync_checklist c (sync_intake c ?state))))
           \<lparr>lastActivityAt := now\<rparr>)"
    by (simp add: completed_covers_def)
  then show ?thesis
    using assms by (simp add: syncFlowWithState_def Let_def all_covered_upd)
qed

lemma reachable_all_covered: "reachable F \<Longrightarrow> all_covered F"
proof (induction rule: reachable.induct)
  case reach_empty
  show ?case by (simp add: all_covered_def)
next
  case (reach_initializeFlow F now cid sid)
  then show ?case by (simp add: all_covered_initializeFlow)
next
  case (reach_getOrCreateFlowState F now cid sid)
  show ?case
  proof (cases "F cid")
    case None
    with reach_getOrCreateFlowState.IH show ?thesis
      by (simp add: getOrCreateFlowState_def all_covered_initializeFlow)
  next
    case (Some existing)
    then have "completed_covers (existing\<lparr>lastActivityAt := now\<rparr>)"
      using reach_getOrCreateFlowState.IH by (simp add: all_covered_def completed_covers_def)
    with Some reach_getOrCreateFlowState.IH show ?thesis
      by (simp add: getOrCreateFlowState_def Let_def all_covered_def)
  qed
next
  case (reach_advanceFlow F now db cid arg)
  then show ?case by (simp add: all_covered_advanceFlow)
next
  case (reach_confirmSummary F now db cid)
  show ?case
  proof (cases "F cid")
    case None
    with reach_confirmSummary.IH show ?thesis by (simp add: confirmSummary_def)
  next
    case (Some state)
    then have "completed_covers state"
      using reach_confirmSummary.IH by (simp add: all_covered_def)
    then have "all_covered (F(cid \<mapsto> state\<lparr>summaryConfirmed := True,
               stageData := (stageData state)(summary_confirmation \<mapsto>
                              [''confirmed'' \<mapsto> JBool True])\<rparr>))"
      using reach_confirmSummary.IH by (simp add: all_covered_upd completed_covers_def)
    with Some show ?thesis
      by (simp add: confirmSummary_def all_covered_advanceFlow)
  qed
next
  case (reach_setSchedulingPreferences F now db cid prefs)
  show ?case
  proof (cases "F cid")
    case None
    with reach_setSchedulingPreferences.IH show ?thesis
      by (simp add: setSchedulingPreferences_def)
  next
    case (Some state)
    then have "completed_covers state"
      using reach_setSchedulingPreferences.IH by (simp add: all_covered_def)
    then have "all_covered (F(cid \<mapsto> state\<lparr>preferredSchedule := Some prefs,
               stageData := (stageData state)(availability_inquiry \<mapsto>
                              [''collected'' \<mapsto> JBool True,
                               ''preferences'' \<mapsto> prefs_json prefs])\<rparr>))"
      using reach_setSchedulingPreferences.IH
      by (simp add: all_covered_upd completed_covers_def)
    with Some show ?thesis
      by (simp add: setSchedulingPreferences_def all_covered_advanceFlow)
  qed
next
  case (reach_setSelectedTaxPro F now db cid tid)
  show ?case
  proof (cases "F cid")
    case None
    with reach_setSelectedTaxPro.IH show ?thesis by (simp add: setSelectedTaxPro_def)
  next
    case (Some state)
    then have "completed_covers state"
      using reach_setSelectedTaxPro.IH by (simp add: all_covered_def)
    then have "all_covered (F(cid \<mapsto> state\<lparr>selectedTaxProId := Some tid,
               stageData := (stageData state)(taxpro_routing \<mapsto>
                              [''selected'' \<mapsto> JBool True,
                               ''taxProId'' \<mapsto> JStr tid])\<rparr>))"
      using reach_setSelectedTaxPro.IH by (simp add: all_covered_upd completed_covers_def)
    with Some show ?thesis
      by (simp add: setSelectedTaxPro_def all_covered_advanceFlow)
  qed
next
  case (reach_syncFlowWithState F now db cid sid)
  then show ?case by (simp add: all_covered_syncFlowWithState)
qed

text \<open>
  C1, as the code has it. In every flow state reachable through the flow operations, each
  stage strictly before \<open>currentStage\<close> is in \<open>completedStages\<close> (no gaps below the
  current stage), and a stage in \<open>completedStages\<close> that is not strictly before
  \<open>currentStage\<close> is \<open>appointment_scheduling\<close>, or is \<open>complete\<close> with \<open>currentStage\<close> being
  \<open>complete\<close>.
\<close>

theorem reachable_completed_covers:
  assumes "reachable F" and "F cid = Some state"
  shows "set (stages_before (currentStage state)) \<subseteq> set (completedStages state)
       \<and> set (completedStages state)
           \<subseteq> set (stages_before (currentStage state)) \<union> {appointment_scheduling}
               \<union> (if currentStage state = complete then {complete} else {})"
  using reachable_all_covered [OF assms(1)] assms(2)
  by (simp add: all_covered_def completed_covers_def stage_inv_def)

theorem reachable_completed_covers_witness:
  "reachable (snd (advanceFlow 1 Map.empty ''c1'' None
                (snd (initializeFlow 0 ''c1'' ''s1'' Map.empty))))
   \<and> snd (advanceFlow 1 Map.empty ''c1'' None
           (snd (initializeFlow 0 ''c1'' ''s1'' Map.empty))) ''c1'' = Some flow_at_intake
   \<and> currentStage flow_at_intake = intake_questions
   \<and> set (stages_before intake_questions) \<subseteq> set (completedStages flow_at_intake)
   \<and> set (completedStages flow_at_intake) = {welcome}"
proof -
  let ?F = "snd (advanceFlow 1 Map.empty ''c1'' None
                  (snd (initializeFlow 0 ''c1'' ''s1'' Map.empty)))"
  have r: "reachable ?F"
    by (intro reach_advanceFlow reach_initializeFlow reach_empty)
  have l: "?F ''c1'' = Some flow_at_intake"
    by (simp add: advanceFlow_def initializeFlow_def Let_def store_stage_data_def
          mark_and_move_def push_if_absent_def flow_at_intake_def flow_fresh_def
          indexOf_FLOW_SEQUENCE FLOW_SEQUENCE_def)
  show ?thesis
    using r l reachable_completed_covers [OF r l]
    by (simp add: flow_at_intake_def flow_fresh_def initializeFlow_def)
qed

text \<open>
  The claim as stated fails: \<open>syncFlowWithState\<close> for a client that has an appointment but no
  flow yet creates the flow at \<open>welcome\<close> and records \<open>appointment_scheduling\<close> as completed.
\<close>

theorem completed_exact_counterexample:
  "reachable (snd (syncFlowWithState 1 [''c1'' \<mapsto> client_with_appointment] ''c1'' ''s1'' Map.empty))
   \<and> map_option currentStage
        (snd (syncFlowWithState 1 [''c1'' \<mapsto> client_with_appointment] ''c1'' ''s1'' Map.empty)
           ''c1'') = Some welcome
   \<and> map_option completedStages
        (snd (syncFlowWithState 1 [''c1'' \<mapsto> client_with_appointment] ''c1'' ''s1'' Map.empty)
           ''c1'') = Some [appointment_scheduling]
   \<and> map_option completed_exact
        (snd (syncFlowWithState 1 [''c1'' \<mapsto> client_with_appointment] ''c1'' ''s1'' Map.empty)
           ''c1'') = Some False"
proof -
  have "reachable (snd (syncFlowWithState 1 [''c1'' \<mapsto> client_with_appointment] ''c1'' ''s1''
                     Map.empty))"
    by (rule reach_syncFlowWithState) (rule reach_empty)
  then show ?thesis
    by (simp add: syncFlowWithState_def initializeFlow_def Let_def client_with_appointment_def
          client_new_def sync_intake_def sync_checklist_def sync_taxpro_def
          sync_appointment_def push_if_absent_def completed_exact_def set_stages_before)
qed


subsection \<open>Repeating \<open>syncFlowWithState\<close>\<close>

lemma push_if_absent_present [simp]: "x \<in> set xs \<Longrightarrow> push_if_absent x xs = xs"
  by (simp add: push_if_absent_def)

lemma sync_intake_settled:
  assumes "intakeCompleted c \<and> \<not> summaryConfirmed s \<Longrightarrow>
             welcome \<in> set (completedStages s) \<and> intake_questions \<in> set (completedStages s)
             \<and> currentStage s \<noteq> welcome \<and> currentStage s \<noteq> intake_questions"
  shows "sync_intake c s = s"
  using assms by (simp add: sync_intake_def Let_def)

lemma sync_checklist_settled:
  assumes "length (documentsCollected c) > 0 \<or> length (documentsPending c) > 0 \<Longrightarrow>
             stageData s document_checklist = Some [''generated'' \<mapsto> JBool True]"
  shows "sync_checklist c s = s"
  using assms by (auto simp add: sync_checklist_def map_upd_triv)

lemma sync_taxpro_settled:
  assumes "truthy_str (assignedTaxPro c) \<Longrightarrow> selectedTaxProId s = assignedTaxPro c"
  shows "sync_taxpro c s = s"
  using assms by (simp add: sync_taxpro_def)

lemma sync_appointment_settled:
  assumes "truthy_str (appointmentId c) \<Longrightarrow> appointment_scheduling \<in> set (completedStages s)"
  shows "sync_appointment c s = s"
  using assms by (simp add: sync_appointment_def)

lemma sync_all_summaryConfirmed:
  "summaryConfirmed (sync_all c s) = summaryConfirmed s"
  by (simp add: sync_all_def sync_appointment_def sync_taxpro_def sync_checklist_def
        sync_intake_def Let_def)

lemma sync_all_currentStage:
  "currentStage (sync_all c s) = currentStage (sync_intake c s)"
  by (simp add: sync_all_def sync_appointment_def sync_taxpro_def sync_checklist_def)

lemma sync_all_completedStages:
  "completedStages (sync_all c s) =
     (if truthy_str (appointmentId c)
      then push_if_absent appointment_scheduling (completedStages (sync_intake c s))
      else completedStages (sync_intake c s))"
  by (simp add: sync_all_def sync_appointment_def sync_taxpro_def sync_checklist_def)

lemma sync_all_stageData:
  "length (documentsCollected c) > 0 \<or> length (documentsPending c) > 0 \<Longrightarrow>
   stageData (sync_all c s) document_checklist = Some [''generated'' \<mapsto> JBool True]"
  by (simp add: sync_all_def sync_appointment_def sync_taxpro_def sync_checklist_def)

lemma sync_all_selectedTaxProId:
  "truthy_str (assignedTaxPro c) \<Longrightarrow> selectedTaxProId (sync_all c s) = assignedTaxPro c"
  by (simp add: sync_all_def sync_appointment_def sync_taxpro_def)

lemma sync_intake_done:
  "intakeCompleted c \<and> \<not> summaryConfirmed s \<Longrightarrow>
   welcome \<in> set (completedStages (sync_intake c s))
   \<and> intake_questions \<in> set (completedStages (sync_intake c s))
   \<and> currentStage (sync_intake c s) \<noteq> welcome
   \<and> currentStage (sync_intake c s) \<noteq> intake_questions"
  by (simp add: sync_intake_def Let_def)

lemma sync_all_again:
  "sync_all c ((sync_all c s)\<lparr>lastActivityAt := t\<rparr>) = (sync_all c s)\<lparr>lastActivityAt := t\<rparr>"
proof -
  let ?s1 = "(sync_all c s)\<lparr>lastActivityAt := t\<rparr>"
  have a: "sync_intake c ?s1 = ?s1"
    by (rule sync_intake_settled)
       (use sync_intake_done [of c s] in
         \<open>simp add: sync_all_summaryConfirmed sync_all_currentStage sync_all_completedStages\<close>)
  have b: "sync_checklist c ?s1 = ?s1"
    by (rule sync_checklist_settled) (use sync_all_stageData [of c s] in simp)
  have d: "sync_taxpro c ?s1 = ?s1"
    by (rule sync_taxpro_settled) (use sync_all_selectedTaxProId [of c s] in simp)
  have e: "sync_appointment c ?s1 = ?s1"
    by (rule sync_appointment_settled) (simp add: sync_all_completedStages)
  show ?thesis
    unfolding sync_all_def [of c ?s1] a b d e ..
qed

lemma syncFlowWithState_lookup:
  "snd (syncFlowWithState now db cid sid F) cid = Some (fst (syncFlowWithState now db cid sid F))"
  by (simp add: syncFlowWithState_def Let_def)

lemma syncFlowWithState_fst:
  "fst (syncFlowWithState now db cid sid F) =
     (let state = (case F cid of None \<Rightarrow> fst (initializeFlow now cid sid F) | Some s \<Rightarrow> s)
      in (case db cid of None \<Rightarrow> state | Some c \<Rightarrow> sync_all c state)\<lparr>lastActivityAt := now\<rparr>)"
  by (simp add: syncFlowWithState_def Let_def sync_all_def split: option.splits)

lemma syncFlowWithState_snd:
  "snd (syncFlowWithState now db cid sid F) = F(cid \<mapsto> fst (syncFlowWithState now db cid sid F))"
  by (simp add: syncFlowWithState_def Let_def)

lemma sync_intake_index: "stage_index state \<le> stage_index (sync_intake c state)"
  by (cases "currentStage state")
     (simp_all add: sync_intake_def Let_def stage_index_def indexOf_FLOW_SEQUENCE)

lemma sync_all_index: "stage_index state \<le> stage_index (sync_all c state)"
proof -
  have "stage_index (sync_all c state) = stage_index (sync_intake c state)"
    by (simp add: sync_all_def sync_appointment_def sync_taxpro_def sync_checklist_def
          stage_index_def)
  then show ?thesis using sync_intake_index [of state c] by simp
qed

text \<open>
  C4, as the code has it. With the client database unchanged and the same arguments, a
  second \<open>syncFlowWithState\<close> returns the flow state of the first call with only
  \<open>lastActivityAt\<close> set to the time of the second call, and stores it; and a call never
  moves \<open>currentStage\<close> of an existing flow to an earlier stage.
\<close>

theorem syncFlowWithState_repeat:
  "syncFlowWithState now2 db cid sid (snd (syncFlowWithState now1 db cid sid F)) =
     ((fst (syncFlowWithState now1 db cid sid F))\<lparr>lastActivityAt := now2\<rparr>,
      (snd (syncFlowWithState now1 db cid sid F))
        (cid \<mapsto> (fst (syncFlowWithState now1 db cid sid F))\<lparr>lastActivityAt := now2\<rparr>))
   \<and> (\<forall>state. F cid = Some state \<longrightarrow>
         stage_index state \<le> stage_index (fst (syncFlowWithState now1 db cid sid F)))"
proof -
  let ?r1 = "syncFlowWithState now1 db cid sid F"
  let ?state = "case F cid of None \<Rightarrow> fst (initializeFlow now1 cid sid F) | Some s \<Rightarrow> s"
  have again: "fst (syncFlowWithState now2 db cid sid (snd ?r1)) = (fst ?r1)\<lparr>lastActivityAt := now2\<rparr>"
  proof (cases "db cid")
    case None
    then show ?thesis
      by (simp add: syncFlowWithState_fst [of now2] syncFlowWithState_lookup Let_def)
  next
    case (Some c)
    have "fst ?r1 = (sync_all c ?state)\<lparr>lastActivityAt := now1\<rparr>"
      using Some by (simp add: syncFlowWithState_fst Let_def)
    then show ?thesis
      using Some sync_all_again [where c = c and s = ?state and t = now1]
      by (simp add: syncFlowWithState_fst [of now2] syncFlowWithState_lookup Let_def)
  qed
  have first: "syncFlowWithState now2 db cid sid (snd ?r1) =
     ((fst ?r1)\<lparr>lastActivityAt := now2\<rparr>, (snd ?r1)(cid \<mapsto> (fst ?r1)\<lparr>lastActivityAt := now2\<rparr>))"
    using again syncFlowWithState_snd [of now2 db cid sid "snd ?r1"]
    by (simp add: prod_eq_iff)
  have second: "\<forall>state. F cid = Some state \<longrightarrow> stage_index state \<le> stage_index (fst ?r1)"
  proof (intro allI impI)
    fix state assume st: "F cid = Some state"
    show "stage_index state \<le> stage_index (fst ?r1)"
    proof (cases "db cid")
      case None
      with st show ?thesis by (simp add: syncFlowWithState_fst stage_index_def)
    next
      case (Some c)
      with st show ?thesis
        using sync_all_index [of state c]
        by (simp add: syncFlowWithState_fst stage_index_def)
    qed
  qed
  show ?thesis using first second by blast
qed

theorem syncFlowWithState_repeat_witness:
  "[''c1'' \<mapsto> flow_fresh] ''c1'' = Some flow_fresh
   \<and> stage_index flow_fresh = 0
   \<and> stage_index (fst (syncFlowWithState 1 [''c1'' \<mapsto> client_intake_done] ''c1'' ''s1''
                          [''c1'' \<mapsto> flow_fresh])) = 2
   \<and> fst (syncFlowWithState 2 [''c1'' \<mapsto> client_intake_done] ''c1'' ''s1''
            (snd (syncFlowWithState 1 [''c1'' \<mapsto> client_intake_done] ''c1'' ''s1''
                    [''c1'' \<mapsto> flow_fresh])))
       = (fst (syncFlowWithState 1 [''c1'' \<mapsto> client_intake_done] ''c1'' ''s1''
                 [''c1'' \<mapsto> flow_fresh]))\<lparr>lastActivityAt := 2\<rparr>"
  using syncFlowWithState_repeat
          [of 2 "[''c1'' \<mapsto> client_intake_done]" "''c1''" "''s1''" 1 "[''c1'' \<mapsto> flow_fresh]"]
  by (simp add: syncFlowWithState_fst sync_all_def sync_intake_def sync_checklist_def
        sync_taxpro_def sync_appointment_def client_intake_done_def client_new_def
        flow_fresh_def initializeFlow_def Let_def push_if_absent_def stage_index_def
        indexOf_FLOW_SEQUENCE)

text \<open>
  The claim as stated fails on the timestamp: two calls at different times, for a client
  whose profile does not change, return states that differ in \<open>lastActivityAt\<close>.
\<close>

theorem syncFlowWithState_repeat_counterexample:
  "fst (syncFlowWithState 2 [''c1'' \<mapsto> client_new] ''c1'' ''s1''
          (snd (syncFlowWithState 1 [''c1'' \<mapsto> client_new] ''c1'' ''s1'' Map.empty)))
     \<noteq> fst (syncFlowWithState 1 [''c1'' \<mapsto> client_new] ''c1'' ''s1'' Map.empty)
   \<and> lastActivityAt (fst (syncFlowWithState 1 [''c1'' \<mapsto> client_new] ''c1'' ''s1'' Map.empty))
       = 1
   \<and> lastActivityAt (fst (syncFlowWithState 2 [''c1'' \<mapsto> client_new] ''c1'' ''s1''
          (snd (syncFlowWithState 1 [''c1'' \<mapsto> client_new] ''c1'' ''s1'' Map.empty)))) = 2"
  by (simp add: syncFlowWithState_def initializeFlow_def Let_def client_new_def
        sync_intake_def sync_checklist_def sync_taxpro_def sync_appointment_def)

section \<open>Properties of the routing engine\<close>

text \<open>
  C5. For every integer score from 0 to 100, \<open>getComplexityLevel\<close> returns simple exactly
  for 0 to 20, moderate exactly for 21 to 50, complex exactly for 51 to 80 and expert
  exactly for 81 to 100; 20 is simple, 21 moderate, 80 complex and 81 expert. The roster
  loader's \<open>determineMaxComplexity\<close> uses the same tiers.
\<close>

theorem getComplexityLevel_tiers:
  assumes "0 \<le> s" and "s \<le> 100"
  shows "(getComplexityLevel s = simple \<longleftrightarrow> 0 \<le> s \<and> s \<le> 20)
       \<and> (getComplexityLevel s = moderate \<longleftrightarrow> 21 \<le> s \<and> s \<le> 50)
       \<and> (getComplexityLevel s = complex \<longleftrightarrow> 51 \<le> s \<and> s \<le> 80)
       \<and> (getComplexityLevel s = expert \<longleftrightarrow> 81 \<le> s \<and> s \<le> 100)
       \<and> getComplexityLevel 20 = simple \<and> getComplexityLevel 21 = moderate
       \<and> getComplexityLevel 80 = complex \<and> getComplexityLevel 81 = expert
       \<and> getComplexityLevel s = determineMaxComplexity 0 s"
  using assms by (auto simp add: getComplexityLevel_def determineMaxComplexity_def)

theorem getComplexityLevel_tiers_witness:
  "(0::int) \<le> 50 \<and> (50::int) \<le> 100 \<and> getComplexityLevel 50 = moderate
   \<and> getComplexityLevel 50 \<noteq> complex"
  using getComplexityLevel_tiers [of 50] by simp




lemma set_insertRanked [simp]: "set (insertRanked x ys) = insert x (set ys)"
  by (induction ys) auto

lemma set_foldl_insertRanked:
  "set (foldl (\<lambda>ranked tp. insertRanked tp ranked) acc xs) = set acc \<union> set xs"
  by (induction xs arbitrary: acc) auto

lemma set_rankCandidates [simp]: "set (rankCandidates xs) = set xs"
  by (simp add: rankCandidates_def set_foldl_insertRanked)

lemma routing_result_members:
  assumes "tp \<in> set_option (taxPro r) \<union> set (alternates r)"
      and "r = (case ranked of [] \<Rightarrow> \<lparr>taxPro = None, alternates = []\<rparr>
                | best # others \<Rightarrow> \<lparr>taxPro = Some best, alternates = take n others\<rparr>)"
  shows "tp \<in> set ranked"
  using assms by (cases ranked) (auto dest: in_set_takeD)

lemma findBestTaxPro_members:
  assumes "tp \<in> set_option (taxPro (findBestTaxPro W tagSpec n taxPros client))
                \<union> set (alternates (findBestTaxPro W tagSpec n taxPros client))"
  shows "tp \<in> set (filter (qualifies (getComplexityLevel (calculateComplexityScore W client))
                             (getRequiredSpecializations tagSpec client))
                      (getAvailableTaxPros taxPros))"
proof -
  let ?cands = "filter (qualifies (getComplexityLevel (calculateComplexityScore W client))
                             (getRequiredSpecializations tagSpec client))
                      (getAvailableTaxPros taxPros)"
  have "tp \<in> set (rankCandidates ?cands)"
    by (rule routing_result_members [OF assms]) (simp add: findBestTaxPro_def Let_def)
  then show ?thesis by (simp only: set_rankCandidates)
qed

text \<open>
  C7. A professional returned by \<open>findBestTaxPro\<close>, as \<open>taxPro\<close> or among \<open>alternates\<close>,
  handles at least the client's complexity level, has a current load strictly below the
  daily maximum, is available, and has every required specialization.
\<close>

theorem findBestTaxPro_eligible:
  assumes "tp \<in> set_option (taxPro (findBestTaxPro W tagSpec n taxPros client))
                \<union> set (alternates (findBestTaxPro W tagSpec n taxPros client))"
  shows "levelOrdinal (maxComplexity tp)
           \<ge> levelOrdinal (getComplexityLevel (calculateComplexityScore W client))
       \<and> currentLoad tp < maxDailyAppointments tp
       \<and> available tp
       \<and> set (getRequiredSpecializations tagSpec client) \<subseteq> set (specializations tp)"
  using findBestTaxPro_members [OF assms]
  by (auto simp: qualifies_def getAvailableTaxPros_def list_all_iff)

lemma findBest_example:
  "findBestTaxPro exampleWeights tagSpecialization 2 fallbackPros client_new
     = \<lparr>taxPro = Some tp_001, alternates = [tp_004]\<rparr>"
  by (simp add: findBestTaxPro_def Let_def calculateComplexityScore_def rawScore_def
        exampleWeights_def client_new_def getComplexityLevel_def getRequiredSpecializations_def
        getAvailableTaxPros_def fallbackPros_def tp_001_def tp_002_def tp_003_def tp_004_def
        tp_005_def qualifies_def rankCandidates_def ranksBefore_def)

theorem findBestTaxPro_eligible_witness:
  "taxPro (findBestTaxPro exampleWeights tagSpecialization 2 fallbackPros client_new)
     = Some tp_001
   \<and> alternates (findBestTaxPro exampleWeights tagSpecialization 2 fallbackPros client_new)
     = [tp_004]
   \<and> levelOrdinal (maxComplexity tp_004)
        \<ge> levelOrdinal (getComplexityLevel (calculateComplexityScore exampleWeights client_new))
   \<and> currentLoad tp_004 < maxDailyAppointments tp_004
   \<and> available tp_004
   \<and> set (getRequiredSpecializations tagSpecialization client_new)
        \<subseteq> set (specializations tp_004)"
  using findBestTaxPro_eligible
          [of tp_004 exampleWeights tagSpecialization 2 fallbackPros client_new]
  by (simp add: findBest_example)


end
